theory Spec2Isabelle
  imports Main "HOL-Library.Word"
begin

unbundle bit_operations_syntax

chapter \<open>The model: filter chain scaffold, multi-threaded LRU storage, maxrows constants\<close>

text \<open>
  A shallow embedding of three source files:
  \<^item> \<^verbatim>\<open>server/modules/filter/maxrows/maxrows.h\<close>: the debug flag constants;
  \<^item> \<^verbatim>\<open>include/maxscale/filter.hh\<close>: the classes \<^verbatim>\<open>FilterSession::Downstream\<close>,
    \<^verbatim>\<open>FilterSession::Upstream\<close> and the template \<^verbatim>\<open>Filter\<close>;
  \<^item> \<^verbatim>\<open>server/modules/filter/cache/lrustoragemt.cc\<close>: the class \<^verbatim>\<open>LRUStorageMT\<close>.
\<close>

section \<open>maxrows.h: the debug flags\<close>

text \<open>
  The macros expand to C expressions of type \<^verbatim>\<open>int\<close>. Every value involved lies between
  0 and 15, so no 32-bit wrap-around can occur and the constants are modelled as
  integers, with \<^verbatim>\<open>|\<close> as bitwise OR.
\<close>

definition MAXROWS_DEBUG_NONE :: int where
  "MAXROWS_DEBUG_NONE = 0"

definition MAXROWS_DEBUG_MATCHING :: int where
  "MAXROWS_DEBUG_MATCHING = 1"

definition MAXROWS_DEBUG_NON_MATCHING :: int where
  "MAXROWS_DEBUG_NON_MATCHING = 2"

definition MAXROWS_DEBUG_USE :: int where
  "MAXROWS_DEBUG_USE = 4"

definition MAXROWS_DEBUG_NON_USE :: int where
  "MAXROWS_DEBUG_NON_USE = 8"

definition MAXROWS_DEBUG_RULES :: int where
  "MAXROWS_DEBUG_RULES = (MAXROWS_DEBUG_MATCHING OR MAXROWS_DEBUG_NON_MATCHING)"

definition MAXROWS_DEBUG_USAGE :: int where
  "MAXROWS_DEBUG_USAGE = (MAXROWS_DEBUG_USE OR MAXROWS_DEBUG_NON_USE)"

definition MAXROWS_DEBUG_MIN :: int where
  "MAXROWS_DEBUG_MIN = MAXROWS_DEBUG_NONE"

definition MAXROWS_DEBUG_MAX :: int where
  "MAXROWS_DEBUG_MAX = (MAXROWS_DEBUG_RULES OR MAXROWS_DEBUG_USAGE)"

text \<open>The four single flags, and the value obtained by OR-ing a selection of flags
  together, starting from \<^verbatim>\<open>MAXROWS_DEBUG_NONE\<close>.\<close>

definition maxrows_debug_flags :: "int list" where
  "maxrows_debug_flags =
     [MAXROWS_DEBUG_MATCHING, MAXROWS_DEBUG_NON_MATCHING, MAXROWS_DEBUG_USE, MAXROWS_DEBUG_NON_USE]"

definition or_combination :: "int list \<Rightarrow> int" where
  "or_combination fs = fold (OR) fs MAXROWS_DEBUG_NONE"

section \<open>filter.hh: handles to the neighbouring components\<close>

text \<open>
  Pointers are addresses; the null pointer is address 0. A function pointer is
  \<open>None\<close> when null and \<open>Some f\<close> when bound to the function \<open>f\<close>. The type variable
  \<open>'w\<close> stands for the state of the rest of the process, which the functions behind a
  function pointer read and change. \<^verbatim>\<open>int\<close> is a 32-bit word, \<^verbatim>\<open>uint64_t\<close> a 64-bit word.
\<close>

type_synonym addr = nat

definition NULL :: addr where
  "NULL = 0"

text \<open>What a C++ \<^verbatim>\<open>throw\<close> can raise.\<close>

datatype fault = bad_alloc | std_exception string | unknown_exception

text \<open>Calling through a null function pointer has no defined behaviour in C++; the
  model makes it a result of its own, so that it cannot be mistaken for a return.\<close>

datatype undefined_behaviour = call_through_null_pointer

text \<open>The entry points \<^verbatim>\<open>routeQuery\<close> and \<^verbatim>\<open>clientReply\<close> of a component take the
  component's instance, its session and the packet, and return an \<^verbatim>\<open>int\<close>.\<close>

type_synonym 'w entry_point = "addr \<Rightarrow> addr \<Rightarrow> addr \<Rightarrow> 'w \<Rightarrow> 32 word \<times> 'w"

text \<open>The structs \<^verbatim>\<open>DOWNSTREAM\<close> and \<^verbatim>\<open>UPSTREAM\<close> (declared in
  \<^verbatim>\<open>maxscale/filter.h\<close>, which is not among the sources) with the three members that
  the constructors of \<^verbatim>\<open>Downstream\<close> and \<^verbatim>\<open>Upstream\<close> assign. (The member
  \<^verbatim>\<open>instance\<close> cannot keep its name, a reserved word of Isabelle; the members carry
  the prefixes \<open>d_\<close> and \<open>u_\<close>.)\<close>

record 'w DOWNSTREAM =
  d_instance :: addr
  d_session :: addr
  d_routeQuery :: "'w entry_point option"

record 'w UPSTREAM =
  u_instance :: addr
  u_session :: addr
  u_clientReply :: "'w entry_point option"

text \<open>The classes \<^verbatim>\<open>FilterSession::Downstream\<close> and \<^verbatim>\<open>FilterSession::Upstream\<close>;
  each has the single member \<^verbatim>\<open>m_data\<close>.\<close>

datatype 'w Downstream = Downstream (Downstream_m_data: "'w DOWNSTREAM")

datatype 'w Upstream = Upstream (Upstream_m_data: "'w UPSTREAM")

text \<open>The default constructor \<^verbatim>\<open>Downstream()\<close>.\<close>

definition Downstream_default :: "'w Downstream" where
  "Downstream_default =
     Downstream \<lparr>d_instance = NULL, d_session = NULL, d_routeQuery = None\<rparr>"

text \<open>The constructor \<^verbatim>\<open>Downstream(const DOWNSTREAM& down)\<close>.\<close>

definition Downstream_copy :: "'w DOWNSTREAM \<Rightarrow> 'w Downstream" where
  "Downstream_copy down = Downstream down"

text \<open>\<^verbatim>\<open>Downstream::routeQuery\<close>: the call
  \<^verbatim>\<open>m_data.routeQuery(m_data.instance, m_data.session, pPacket)\<close>.\<close>

definition Downstream_routeQuery ::
  "'w Downstream \<Rightarrow> addr \<Rightarrow> 'w \<Rightarrow> undefined_behaviour + 32 word \<times> 'w" where
  "Downstream_routeQuery this pPacket w =
     (let m_data = Downstream_m_data this
      in case d_routeQuery m_data of
           None \<Rightarrow> Inl call_through_null_pointer
         | Some routeQuery \<Rightarrow> Inr (routeQuery (d_instance m_data) (d_session m_data) pPacket w))"

text \<open>The default constructor \<^verbatim>\<open>Upstream()\<close>.\<close>

definition Upstream_default :: "'w Upstream" where
  "Upstream_default =
     Upstream \<lparr>u_instance = NULL, u_session = NULL, u_clientReply = None\<rparr>"

text \<open>The constructor \<^verbatim>\<open>Upstream(const UPSTREAM& up)\<close>.\<close>

definition Upstream_copy :: "'w UPSTREAM \<Rightarrow> 'w Upstream" where
  "Upstream_copy up = Upstream up"

text \<open>\<^verbatim>\<open>Upstream::clientReply\<close>: the call
  \<^verbatim>\<open>m_data.clientReply(m_data.instance, m_data.session, pPacket)\<close>.\<close>

definition Upstream_clientReply ::
  "'w Upstream \<Rightarrow> addr \<Rightarrow> 'w \<Rightarrow> undefined_behaviour + 32 word \<times> 'w" where
  "Upstream_clientReply this pPacket w =
     (let m_data = Upstream_m_data this
      in case u_clientReply m_data of
           None \<Rightarrow> Inl call_through_null_pointer
         | Some clientReply \<Rightarrow> Inr (clientReply (u_instance m_data) (u_session m_data) pPacket w))"

text \<open>
  A probe for counting calls: \<open>recording f\<close> behaves as \<open>f\<close> on the second component of
  the state and appends the arguments of every invocation to the list in the first
  component. An entry point bound to \<open>recording f\<close> therefore shows how often, and with
  which arguments, it was invoked.
\<close>

definition recording :: "'w entry_point \<Rightarrow> ((addr \<times> addr \<times> addr) list \<times> 'w) entry_point" where
  "recording f pInstance pSession pPacket =
     (\<lambda>(calls, w). case f pInstance pSession pPacket w of
        (rv, w') \<Rightarrow> (rv, (calls @ [(pInstance, pSession, pPacket)], w')))"

section \<open>filter.hh: the template Filter\<close>

text \<open>
  The template parameters. \<^verbatim>\<open>FilterType\<close> is the concrete filter class: its static
  functions \<^verbatim>\<open>create\<close> and \<^verbatim>\<open>getCapabilities\<close>, its member function \<^verbatim>\<open>newSession\<close>
  and its destructor. \<^verbatim>\<open>FilterSessionType\<close> is the concrete session class with the member
  functions of \<^verbatim>\<open>FilterSession\<close> and its destructor. A member function takes the address of
  its object first. Each of them either returns (\<open>Inr\<close>) or raises a fault (\<open>Inl\<close>), and
  leaves a state of the process behind in both cases.
\<close>

record 'w FilterType =
  ft_create :: "string \<Rightarrow> string list \<Rightarrow> addr \<Rightarrow> 'w \<Rightarrow> (fault + addr) \<times> 'w"
  ft_newSession :: "addr \<Rightarrow> addr \<Rightarrow> 'w \<Rightarrow> (fault + addr) \<times> 'w"
  ft_getCapabilities :: "'w \<Rightarrow> (fault + 64 word) \<times> 'w"
  ft_destructor :: "addr \<Rightarrow> 'w \<Rightarrow> (fault + unit) \<times> 'w"

record 'w FilterSessionType =
  fs_close :: "addr \<Rightarrow> 'w \<Rightarrow> (fault + unit) \<times> 'w"
  fs_destructor :: "addr \<Rightarrow> 'w \<Rightarrow> (fault + unit) \<times> 'w"
  fs_setDownstream :: "addr \<Rightarrow> 'w Downstream \<Rightarrow> 'w \<Rightarrow> (fault + unit) \<times> 'w"
  fs_setUpstream :: "addr \<Rightarrow> 'w Upstream \<Rightarrow> 'w \<Rightarrow> (fault + unit) \<times> 'w"
  fs_routeQuery :: "addr \<Rightarrow> addr \<Rightarrow> 'w \<Rightarrow> (fault + 32 word) \<times> 'w"
  fs_clientReply :: "addr \<Rightarrow> addr \<Rightarrow> 'w \<Rightarrow> (fault + 32 word) \<times> 'w"
  fs_diagnostics :: "addr \<Rightarrow> addr \<Rightarrow> 'w \<Rightarrow> (fault + unit) \<times> 'w"

text \<open>
  Modelled from the spec: the macro \<^verbatim>\<open>MXS_EXCEPTION_GUARD\<close>, which
  \<^verbatim>\<open>maxscale/cppdefs.hh\<close> defines and which is not among the sources. The spec says that
  the entry points "swallow and translate any raised runtime fault into a single fallback
  error result": the guard runs the statement; when the statement raises, the fault is
  caught, whatever it is, and the statement's assignment has not taken place (\<open>None\<close>);
  otherwise the statement has assigned the value (\<open>Some\<close>). The state that the statement
  leaves behind stays as it is in both cases. Writing the fault to the log is left out.
\<close>

definition MXS_EXCEPTION_GUARD :: "('w \<Rightarrow> (fault + 'a) \<times> 'w) \<Rightarrow> 'w \<Rightarrow> 'a option \<times> 'w" where
  "MXS_EXCEPTION_GUARD statement w =
     (case statement w of
        (Inl e, w') \<Rightarrow> (None, w')
      | (Inr v, w') \<Rightarrow> (Some v, w'))"

text \<open>The C++ expression \<^verbatim>\<open>delete p\<close>: nothing for a null pointer, the destructor (and
  the release of the memory, which is part of the destructor here) otherwise.\<close>

definition delete_object ::
  "(addr \<Rightarrow> 'w \<Rightarrow> (fault + unit) \<times> 'w) \<Rightarrow> addr \<Rightarrow> 'w \<Rightarrow> (fault + unit) \<times> 'w" where
  "delete_object destructor p w = (if p = NULL then (Inr (), w) else destructor p w)"

text \<open>The static member functions of \<^verbatim>\<open>Filter<FilterType, FilterSessionType>\<close>, in the
  order of the source. The \<^verbatim>\<open>reinterpret_cast\<close>s keep the address.\<close>

definition Filter_createInstance ::
  "'w FilterType \<Rightarrow> string \<Rightarrow> string list \<Rightarrow> addr \<Rightarrow> 'w \<Rightarrow> addr \<times> 'w" where
  "Filter_createInstance FT zName pzOptions ppParams w =
     (let pFilter = NULL;
          (assigned, w') = MXS_EXCEPTION_GUARD (ft_create FT zName pzOptions ppParams) w
      in (case assigned of None \<Rightarrow> pFilter | Some p \<Rightarrow> p, w'))"

text \<open>\<^verbatim>\<open>newSession\<close> declares \<^verbatim>\<open>pFilterSession\<close> without an initial value: when the
  guarded statement raises, the function returns an indeterminate pointer, \<open>None\<close> here.\<close>

definition Filter_newSession ::
  "'w FilterType \<Rightarrow> addr \<Rightarrow> addr \<Rightarrow> 'w \<Rightarrow> addr option \<times> 'w" where
  "Filter_newSession FT pInstance pSession w =
     (let pFilter = pInstance
      in MXS_EXCEPTION_GUARD (ft_newSession FT pFilter pSession) w)"

definition Filter_closeSession ::
  "'w FilterSessionType \<Rightarrow> addr \<Rightarrow> addr \<Rightarrow> 'w \<Rightarrow> 'w" where
  "Filter_closeSession FST pInstance pData w =
     (let pFilterSession = pData
      in snd (MXS_EXCEPTION_GUARD (fs_close FST pFilterSession) w))"

definition Filter_freeSession ::
  "'w FilterSessionType \<Rightarrow> addr \<Rightarrow> addr \<Rightarrow> 'w \<Rightarrow> 'w" where
  "Filter_freeSession FST pInstance pData w =
     (let pFilterSession = pData
      in snd (MXS_EXCEPTION_GUARD (delete_object (fs_destructor FST) pFilterSession) w))"

definition Filter_setDownstream ::
  "'w FilterSessionType \<Rightarrow> addr \<Rightarrow> addr \<Rightarrow> 'w DOWNSTREAM \<Rightarrow> 'w \<Rightarrow> 'w" where
  "Filter_setDownstream FST pInstance pData pDownstream w =
     (let pFilterSession = pData;
          down = Downstream_copy pDownstream
      in snd (MXS_EXCEPTION_GUARD (fs_setDownstream FST pFilterSession down) w))"

definition Filter_setUpstream ::
  "'w FilterSessionType \<Rightarrow> addr \<Rightarrow> addr \<Rightarrow> 'w UPSTREAM \<Rightarrow> 'w \<Rightarrow> 'w" where
  "Filter_setUpstream FST pInstance pData pUpstream w =
     (let pFilterSession = pData;
          up = Upstream_copy pUpstream
      in snd (MXS_EXCEPTION_GUARD (fs_setUpstream FST pFilterSession up) w))"

definition Filter_routeQuery ::
  "'w FilterSessionType \<Rightarrow> addr \<Rightarrow> addr \<Rightarrow> addr \<Rightarrow> 'w \<Rightarrow> 32 word \<times> 'w" where
  "Filter_routeQuery FST pInstance pData pPacket w =
     (let pFilterSession = pData;
          rv = 0;
          (assigned, w') = MXS_EXCEPTION_GUARD (fs_routeQuery FST pFilterSession pPacket) w
      in (case assigned of None \<Rightarrow> rv | Some v \<Rightarrow> v, w'))"

definition Filter_clientReply ::
  "'w FilterSessionType \<Rightarrow> addr \<Rightarrow> addr \<Rightarrow> addr \<Rightarrow> 'w \<Rightarrow> 32 word \<times> 'w" where
  "Filter_clientReply FST pInstance pData pPacket w =
     (let pFilterSession = pData;
          rv = 0;
          (assigned, w') = MXS_EXCEPTION_GUARD (fs_clientReply FST pFilterSession pPacket) w
      in (case assigned of None \<Rightarrow> rv | Some v \<Rightarrow> v, w'))"

definition Filter_diagnostics ::
  "'w FilterSessionType \<Rightarrow> addr \<Rightarrow> addr \<Rightarrow> addr \<Rightarrow> 'w \<Rightarrow> 'w" where
  "Filter_diagnostics FST pInstance pData pDcb w =
     (let pFilterSession = pData
      in snd (MXS_EXCEPTION_GUARD (fs_diagnostics FST pFilterSession pDcb) w))"

definition Filter_getCapabilities :: "'w FilterType \<Rightarrow> 'w \<Rightarrow> 64 word \<times> 'w" where
  "Filter_getCapabilities FT w =
     (let rv = 0;
          (assigned, w') = MXS_EXCEPTION_GUARD (ft_getCapabilities FT) w
      in (case assigned of None \<Rightarrow> rv | Some v \<Rightarrow> v, w'))"

definition Filter_destroyInstance :: "'w FilterType \<Rightarrow> addr \<Rightarrow> 'w \<Rightarrow> 'w" where
  "Filter_destroyInstance FT pInstance w =
     (let pFilter = pInstance
      in snd (MXS_EXCEPTION_GUARD (delete_object (ft_destructor FT) pFilter) w))"

text \<open>
  The table \<^verbatim>\<open>Filter<FilterType, FilterSessionType>::s_object\<close>. The struct
  \<^verbatim>\<open>FILTER_OBJECT\<close> is declared in \<^verbatim>\<open>maxscale/filter.h\<close>, which is not among the sources;
  the initialiser fills its members by position, so the table is the list of its
  initialisers, each tagged with the signature of the function it holds.
\<close>

datatype 'w FILTER_OBJECT_entry =
    createInstance_entry "string \<Rightarrow> string list \<Rightarrow> addr \<Rightarrow> 'w \<Rightarrow> addr \<times> 'w"
  | newSession_entry "addr \<Rightarrow> addr \<Rightarrow> 'w \<Rightarrow> addr option \<times> 'w"
  | closeSession_entry "addr \<Rightarrow> addr \<Rightarrow> 'w \<Rightarrow> 'w"
  | freeSession_entry "addr \<Rightarrow> addr \<Rightarrow> 'w \<Rightarrow> 'w"
  | setDownstream_entry "addr \<Rightarrow> addr \<Rightarrow> 'w DOWNSTREAM \<Rightarrow> 'w \<Rightarrow> 'w"
  | setUpstream_entry "addr \<Rightarrow> addr \<Rightarrow> 'w UPSTREAM \<Rightarrow> 'w \<Rightarrow> 'w"
  | routeQuery_entry "'w entry_point"
  | clientReply_entry "'w entry_point"
  | diagnostics_entry "addr \<Rightarrow> addr \<Rightarrow> addr \<Rightarrow> 'w \<Rightarrow> 'w"
  | getCapabilities_entry "'w \<Rightarrow> 64 word \<times> 'w"
  | destroyInstance_entry "addr \<Rightarrow> 'w \<Rightarrow> 'w"

definition s_object :: "'w FilterType \<Rightarrow> 'w FilterSessionType \<Rightarrow> 'w FILTER_OBJECT_entry list" where
  "s_object FT FST =
     [createInstance_entry (Filter_createInstance FT),
      newSession_entry (Filter_newSession FT),
      closeSession_entry (Filter_closeSession FST),
      freeSession_entry (Filter_freeSession FST),
      setDownstream_entry (Filter_setDownstream FST),
      setUpstream_entry (Filter_setUpstream FST),
      routeQuery_entry (Filter_routeQuery FST),
      clientReply_entry (Filter_clientReply FST),
      diagnostics_entry (Filter_diagnostics FST),
      getCapabilities_entry (Filter_getCapabilities FT),
      destroyInstance_entry (Filter_destroyInstance FT)]"

section \<open>lrustoragemt.cc: the class LRUStorageMT\<close>

text \<open>
  The spinlock behind \<^verbatim>\<open>SpinLockGuard\<close>: \<^verbatim>\<open>spinlock_init\<close> and the guard's
  constructor and destructor come from \<^verbatim>\<open>maxscale/spinlock.hh\<close>, which is not among the
  sources. The spec says that each public operation "acquires a single mutual-exclusion
  lock for the duration of that one call ... and releases the lock before returning", and
  that acquiring can only block. The lock is a flag, set while the lock is held.
\<close>

text \<open>Modelled from the spec: \<^verbatim>\<open>spinlock_init\<close>; a new lock is free.\<close>

definition spinlock_init :: bool where
  "spinlock_init = False"

text \<open>Modelled from the spec: the constructor of \<^verbatim>\<open>SpinLockGuard\<close>, which acquires the
  lock. Acquiring spins while the flag is set; in a run of one thread nobody else clears
  the flag, so acquiring a held lock never returns, which is the value \<open>None\<close>.\<close>

partial_function (option) spinlock_acquire :: "bool \<Rightarrow> bool option" where
  "spinlock_acquire locked = (if locked then spinlock_acquire locked else Some True)"

text \<open>Modelled from the spec: the destructor of \<^verbatim>\<open>SpinLockGuard\<close>, which releases the
  lock.\<close>

definition spinlock_release :: "bool \<Rightarrow> bool" where
  "spinlock_release locked = False"

text \<open>
  \<^verbatim>\<open>LRUStorageMT\<close> derives from \<^verbatim>\<open>LRUStorage\<close>, whose definition is not among the
  sources. What \<^verbatim>\<open>lrustoragemt.cc\<close> uses of the base class is a parameter of the model:
  the constructor and the eight member functions \<^verbatim>\<open>do_...\<close>, over an arbitrary state
  \<open>'s\<close> of the base class. A member function may not return (\<open>None\<close>); the result type
  \<open>'r\<close> is arbitrary and can carry a fault that the function raises, which passes through
  the caller unchanged while the guard's destructor still runs. Output parameters
  (\<^verbatim>\<open>ppvalue\<close>, \<^verbatim>\<open>pKey\<close>, \<^verbatim>\<open>pSize\<close>, ...) are returned next to the result, \<open>None\<close>
  when nothing was written. The member functions declared \<^verbatim>\<open>const\<close> return no state.
\<close>

record ('s, 'p, 'k, 'v, 'j, 'r) LRUStorage_base =
  LRUStorage_ctor :: "'p \<Rightarrow> 64 word \<Rightarrow> 64 word \<Rightarrow> fault + 's"
  do_get_info :: "'s \<Rightarrow> 32 word \<Rightarrow> ('r \<times> 'j option) option"
  do_get_value :: "'s \<Rightarrow> 'k \<Rightarrow> 32 word \<Rightarrow> (('r \<times> 'v option) \<times> 's) option"
  do_put_value :: "'s \<Rightarrow> 'k \<Rightarrow> 'v \<Rightarrow> ('r \<times> 's) option"
  do_del_value :: "'s \<Rightarrow> 'k \<Rightarrow> ('r \<times> 's) option"
  do_get_head :: "'s \<Rightarrow> (('r \<times> ('k \<times> 'v) option) \<times> 's) option"
  do_get_tail :: "'s \<Rightarrow> (('r \<times> ('k \<times> 'v) option) \<times> 's) option"
  do_get_size :: "'s \<Rightarrow> ('r \<times> 64 word option) option"
  do_get_items :: "'s \<Rightarrow> ('r \<times> 64 word option) option"

text \<open>An object of class \<^verbatim>\<open>LRUStorageMT\<close>: the base class part and the member
  \<^verbatim>\<open>lock_\<close> (a name cannot end in an underscore in Isabelle).\<close>

record 's LRUStorageMT =
  lrustorage :: 's
  lock :: bool

text \<open>The constructor: the base class constructor, then \<^verbatim>\<open>spinlock_init(&lock_)\<close>. The
  notice written to the log is left out.\<close>

definition LRUStorageMT_ctor ::
  "('s, 'p, 'k, 'v, 'j, 'r) LRUStorage_base \<Rightarrow> 'p \<Rightarrow> 64 word \<Rightarrow> 64 word \<Rightarrow> fault + 's LRUStorageMT" where
  "LRUStorageMT_ctor LRUStorage pstorage max_count max_size =
     (case LRUStorage_ctor LRUStorage pstorage max_count max_size of
        Inl e \<Rightarrow> Inl e
      | Inr b \<Rightarrow> Inr \<lparr>lrustorage = b, lock = spinlock_init\<rparr>)"

text \<open>
  The free store, for the expression \<^verbatim>\<open>new LRUStorageMT(...)\<close>: the objects allocated
  so far, the object at address \<open>i + 1\<close> in position \<open>i\<close>, and the number of objects the
  memory has room for. \<^verbatim>\<open>new\<close> raises \<^verbatim>\<open>std::bad_alloc\<close> when the memory is exhausted,
  passes on what the constructor raises (the memory is released again), and otherwise
  returns the address of the new object, which is never null.
\<close>

record 'o heap =
  objects :: "'o list"
  capacity :: nat

definition heap_at :: "'o heap \<Rightarrow> addr \<Rightarrow> 'o option" where
  "heap_at h p = (if p = NULL \<or> length (objects h) < p then None else Some (objects h ! (p - 1)))"

definition new_LRUStorageMT ::
  "('s, 'p, 'k, 'v, 'j, 'r) LRUStorage_base \<Rightarrow> 'p \<Rightarrow> 64 word \<Rightarrow> 64 word \<Rightarrow>
     's LRUStorageMT heap \<Rightarrow> (fault + addr) \<times> 's LRUStorageMT heap" where
  "new_LRUStorageMT LRUStorage pstorage max_count max_size h =
     (if capacity h \<le> length (objects h) then (Inl bad_alloc, h)
      else (case LRUStorageMT_ctor LRUStorage pstorage max_count max_size of
              Inl e \<Rightarrow> (Inl e, h)
            | Inr obj \<Rightarrow> (Inr (Suc (length (objects h))), h\<lparr>objects := objects h @ [obj]\<rparr>)))"

text \<open>\<^verbatim>\<open>LRUStorageMT::create\<close>.\<close>

definition LRUStorageMT_create ::
  "('s, 'p, 'k, 'v, 'j, 'r) LRUStorage_base \<Rightarrow> 'p \<Rightarrow> 64 word \<Rightarrow> 64 word \<Rightarrow>
     's LRUStorageMT heap \<Rightarrow> addr \<times> 's LRUStorageMT heap" where
  "LRUStorageMT_create LRUStorage pstorage max_count max_size h =
     (let plru_storage = NULL;
          (assigned, h') =
             MXS_EXCEPTION_GUARD (new_LRUStorageMT LRUStorage pstorage max_count max_size) h
      in (case assigned of None \<Rightarrow> plru_storage | Some p \<Rightarrow> p, h'))"

text \<open>
  The eight public member functions, in the order of the source. Each constructs a
  \<^verbatim>\<open>SpinLockGuard\<close> on \<^verbatim>\<open>lock_\<close> (acquire), calls the member function of the base
  class, and returns its result; the guard's destructor releases the lock on the way out.
  A call returns the result together with the object as the call leaves it.
\<close>

definition LRUStorageMT_get_info ::
  "('s, 'p, 'k, 'v, 'j, 'r) LRUStorage_base \<Rightarrow> 's LRUStorageMT \<Rightarrow> 32 word \<Rightarrow>
     (('r \<times> 'j option) \<times> 's LRUStorageMT) option" where
  "LRUStorageMT_get_info LRUStorage this what =
     (case spinlock_acquire (lock this) of
        None \<Rightarrow> None
      | Some guard \<Rightarrow>
          (case do_get_info LRUStorage (lrustorage this) what of
             None \<Rightarrow> None
           | Some result \<Rightarrow> Some (result, this\<lparr>lock := spinlock_release guard\<rparr>)))"

definition LRUStorageMT_get_value ::
  "('s, 'p, 'k, 'v, 'j, 'r) LRUStorage_base \<Rightarrow> 's LRUStorageMT \<Rightarrow> 'k \<Rightarrow> 32 word \<Rightarrow>
     (('r \<times> 'v option) \<times> 's LRUStorageMT) option" where
  "LRUStorageMT_get_value LRUStorage this key flags =
     (case spinlock_acquire (lock this) of
        None \<Rightarrow> None
      | Some guard \<Rightarrow>
          (case do_get_value LRUStorage (lrustorage this) key flags of
             None \<Rightarrow> None
           | Some (result, b) \<Rightarrow>
               Some (result, this\<lparr>lrustorage := b, lock := spinlock_release guard\<rparr>)))"

definition LRUStorageMT_put_value ::
  "('s, 'p, 'k, 'v, 'j, 'r) LRUStorage_base \<Rightarrow> 's LRUStorageMT \<Rightarrow> 'k \<Rightarrow> 'v \<Rightarrow>
     ('r \<times> 's LRUStorageMT) option" where
  "LRUStorageMT_put_value LRUStorage this key pvalue =
     (case spinlock_acquire (lock this) of
        None \<Rightarrow> None
      | Some guard \<Rightarrow>
          (case do_put_value LRUStorage (lrustorage this) key pvalue of
             None \<Rightarrow> None
           | Some (result, b) \<Rightarrow>
               Some (result, this\<lparr>lrustorage := b, lock := spinlock_release guard\<rparr>)))"

definition LRUStorageMT_del_value ::
  "('s, 'p, 'k, 'v, 'j, 'r) LRUStorage_base \<Rightarrow> 's LRUStorageMT \<Rightarrow> 'k \<Rightarrow>
     ('r \<times> 's LRUStorageMT) option" where
  "LRUStorageMT_del_value LRUStorage this key =
     (case spinlock_acquire (lock this) of
        None \<Rightarrow> None
      | Some guard \<Rightarrow>
          (case do_del_value LRUStorage (lrustorage this) key of
             None \<Rightarrow> None
           | Some (result, b) \<Rightarrow>
               Some (result, this\<lparr>lrustorage := b, lock := spinlock_release guard\<rparr>)))"

definition LRUStorageMT_get_head ::
  "('s, 'p, 'k, 'v, 'j, 'r) LRUStorage_base \<Rightarrow> 's LRUStorageMT \<Rightarrow>
     (('r \<times> ('k \<times> 'v) option) \<times> 's LRUStorageMT) option" where
  "LRUStorageMT_get_head LRUStorage this =
     (case spinlock_acquire (lock this) of
        None \<Rightarrow> None
      | Some guard \<Rightarrow>
          (case do_get_head LRUStorage (lrustorage this) of
             None \<Rightarrow> None
           | Some (result, b) \<Rightarrow>
               Some (result, this\<lparr>lrustorage := b, lock := spinlock_release guard\<rparr>)))"

definition LRUStorageMT_get_tail ::
  "('s, 'p, 'k, 'v, 'j, 'r) LRUStorage_base \<Rightarrow> 's LRUStorageMT \<Rightarrow>
     (('r \<times> ('k \<times> 'v) option) \<times> 's LRUStorageMT) option" where
  "LRUStorageMT_get_tail LRUStorage this =
     (case spinlock_acquire (lock this) of
        None \<Rightarrow> None
      | Some guard \<Rightarrow>
          (case do_get_tail LRUStorage (lrustorage this) of
             None \<Rightarrow> None
           | Some (result, b) \<Rightarrow>
               Some (result, this\<lparr>lrustorage := b, lock := spinlock_release guard\<rparr>)))"

definition LRUStorageMT_get_size ::
  "('s, 'p, 'k, 'v, 'j, 'r) LRUStorage_base \<Rightarrow> 's LRUStorageMT \<Rightarrow>
     (('r \<times> 64 word option) \<times> 's LRUStorageMT) option" where
  "LRUStorageMT_get_size LRUStorage this =
     (case spinlock_acquire (lock this) of
        None \<Rightarrow> None
      | Some guard \<Rightarrow>
          (case do_get_size LRUStorage (lrustorage this) of
             None \<Rightarrow> None
           | Some result \<Rightarrow> Some (result, this\<lparr>lock := spinlock_release guard\<rparr>)))"

definition LRUStorageMT_get_items ::
  "('s, 'p, 'k, 'v, 'j, 'r) LRUStorage_base \<Rightarrow> 's LRUStorageMT \<Rightarrow>
     (('r \<times> 64 word option) \<times> 's LRUStorageMT) option" where
  "LRUStorageMT_get_items LRUStorage this =
     (case spinlock_acquire (lock this) of
        None \<Rightarrow> None
      | Some guard \<Rightarrow>
          (case do_get_items LRUStorage (lrustorage this) of
             None \<Rightarrow> None
           | Some result \<Rightarrow> Some (result, this\<lparr>lock := spinlock_release guard\<rparr>)))"

section \<open>The LRU storage decorator\<close>

text \<open>
  The class \<^verbatim>\<open>LRUStorage\<close> (\<^verbatim>\<open>lrustorage.hh\<close>, \<^verbatim>\<open>lrustorage.cc\<close>) is not among the
  sources. Every definition of this section follows the specification's description of
  the decorator (its sections 3, 4.1 and 4.2) and says so.
\<close>

text \<open>Modelled from the spec: the result codes of a storage operation (the type
  \<^verbatim>\<open>cache_result_t\<close> is declared in a header that is not among the sources). The spec
  names found, not found, stale, error and out of resources.\<close>

datatype cache_result =
    CACHE_RESULT_OK
  | CACHE_RESULT_NOT_FOUND
  | CACHE_RESULT_STALE
  | CACHE_RESULT_ERROR
  | CACHE_RESULT_OUT_OF_RESOURCES

text \<open>Modelled from the spec: the packet buffer \<^verbatim>\<open>GWBUF\<close>, "an opaque ... byte buffer";
  its size is its length in bytes.\<close>

type_synonym GWBUF = "8 word list"

text \<open>
  Modelled from the spec: the state of the decorator \<^verbatim>\<open>LRUStorage\<close>, "underlying
  Storage, key to node map, recency list, running totals, limits".
  \<^item> \<open>underlying\<close> is the underlying Storage, an in-memory map from keys to values, which
    never fails and has no staleness policy of its own;
  \<^item> \<open>nodes\<close> is the recency list, the most recently used node first and the least
    recently used node last; a node holds its key and the size of its value, and the key
    to node map is the lookup \<open>map_of (nodes s)\<close>;
  \<^item> \<open>item_count\<close> and \<open>total_size\<close> are the running totals, natural numbers (the spec
    gives them no width and no wrap-around);
  \<^item> \<open>max_item_count\<close> and \<open>max_total_size\<close> are the limits, unsigned 64-bit, 0 for
    unlimited.
\<close>

record 'k LRUStorage =
  underlying :: "'k \<rightharpoonup> GWBUF"
  nodes :: "('k \<times> nat) list"
  item_count :: nat
  total_size :: nat
  max_item_count :: "64 word"
  max_total_size :: "64 word"

text \<open>Modelled from the spec: the constructor \<^verbatim>\<open>LRUStorage(pstorage, max_count,
  max_size)\<close>. A new decorator wraps the given Storage, tracks no node yet and has both
  running totals at 0.\<close>

definition LRUStorage_create ::
  "('k \<rightharpoonup> GWBUF) \<Rightarrow> 64 word \<Rightarrow> 64 word \<Rightarrow> fault + 'k LRUStorage" where
  "LRUStorage_create storage max_count max_size =
     Inr \<lparr>underlying = storage, nodes = [], item_count = 0, total_size = 0,
          max_item_count = max_count, max_total_size = max_size\<rparr>"

text \<open>Modelled from the spec: removing the node of a key from the recency list.\<close>

definition without_node :: "'k \<Rightarrow> ('k \<times> nat) list \<Rightarrow> ('k \<times> nat) list" where
  "without_node key ns = filter (\<lambda>n. fst n \<noteq> key) ns"

text \<open>Modelled from the spec: the condition of the eviction loop, "\<^verbatim>\<open>max_item_count\<close> is
  nonzero and \<^verbatim>\<open>item_count > max_item_count\<close>, OR \<^verbatim>\<open>max_total_size\<close> is nonzero and
  \<^verbatim>\<open>total_size > max_total_size\<close>".\<close>

definition over_limit :: "'k LRUStorage \<Rightarrow> bool" where
  "over_limit s \<longleftrightarrow>
     (max_item_count s \<noteq> 0 \<and> unat (max_item_count s) < item_count s)
     \<or> (max_total_size s \<noteq> 0 \<and> unat (max_total_size s) < total_size s)"

text \<open>Modelled from the spec: one eviction, "evict the least-recently-used node: remove
  it from the underlying Storage, remove its node, decrement \<^verbatim>\<open>item_count\<close>, subtract its
  size from \<^verbatim>\<open>total_size\<close>". With no node in the list nothing changes.\<close>

definition evict_lru :: "'k LRUStorage \<Rightarrow> 'k LRUStorage" where
  "evict_lru s =
     (case rev (nodes s) of
        [] \<Rightarrow> s
      | (key, sz) # _ \<Rightarrow>
          s\<lparr>underlying := (underlying s)(key := None),
            nodes := butlast (nodes s),
            item_count := item_count s - 1,
            total_size := total_size s - sz\<rparr>)"

text \<open>Modelled from the spec: the eviction loop, "while [over the limit]: evict the
  least-recently-used node". The loop has no other exit: where it does not end, the
  value is \<open>None\<close>.\<close>

partial_function (option) evict :: "'k LRUStorage \<Rightarrow> 'k LRUStorage option" where
  "evict s = (if over_limit s then evict (evict_lru s) else Some s)"

text \<open>Modelled from the spec: the insert or update of \<^verbatim>\<open>do_put_value\<close>, "if key exists,
  update its value in the underlying Storage, update \<^verbatim>\<open>total_size\<close> by the size delta,
  move its node to the most-recently-used end. If key is new, insert into the underlying
  Storage, create a node at the most-recently-used end, increment \<^verbatim>\<open>item_count\<close>, add
  value size to \<^verbatim>\<open>total_size\<close>".\<close>

definition put_node :: "'k LRUStorage \<Rightarrow> 'k \<Rightarrow> GWBUF \<Rightarrow> 'k LRUStorage" where
  "put_node s key pvalue =
     (case map_of (nodes s) key of
        Some old_size \<Rightarrow>
          s\<lparr>underlying := (underlying s)(key \<mapsto> pvalue),
            nodes := (key, length pvalue) # without_node key (nodes s),
            total_size := total_size s - old_size + length pvalue\<rparr>
      | None \<Rightarrow>
          s\<lparr>underlying := (underlying s)(key \<mapsto> pvalue),
            nodes := (key, length pvalue) # nodes s,
            item_count := item_count s + 1,
            total_size := total_size s + length pvalue\<rparr>)"

text \<open>Modelled from the spec: \<^verbatim>\<open>LRUStorage::do_put_value\<close>, the insert or update
  followed by the eviction loop. The put is accepted whatever the size of the value.\<close>

definition LRUStorage_do_put_value ::
  "'k LRUStorage \<Rightarrow> 'k \<Rightarrow> GWBUF \<Rightarrow> (cache_result \<times> 'k LRUStorage) option" where
  "LRUStorage_do_put_value s key pvalue =
     map_option (\<lambda>s'. (CACHE_RESULT_OK, s')) (evict (put_node s key pvalue))"

text \<open>Modelled from the spec: \<^verbatim>\<open>LRUStorage::do_get_value\<close>, "look up in the underlying
  Storage; on a hit, move the corresponding node to the most-recently-used end and return
  the value; on a miss, no bookkeeping changes".\<close>

definition LRUStorage_do_get_value ::
  "'k LRUStorage \<Rightarrow> 'k \<Rightarrow> 32 word \<Rightarrow> ((cache_result \<times> GWBUF option) \<times> 'k LRUStorage) option" where
  "LRUStorage_do_get_value s key flags =
     (case underlying s key of
        None \<Rightarrow> Some ((CACHE_RESULT_NOT_FOUND, None), s)
      | Some v \<Rightarrow>
          Some ((CACHE_RESULT_OK, Some v),
                (case map_of (nodes s) key of
                   None \<Rightarrow> s
                 | Some sz \<Rightarrow> s\<lparr>nodes := (key, sz) # without_node key (nodes s)\<rparr>)))"

text \<open>Modelled from the spec: \<^verbatim>\<open>LRUStorage::do_del_value\<close>, "remove from the underlying
  Storage; on success, remove the node, decrement \<^verbatim>\<open>item_count\<close>, subtract size from
  \<^verbatim>\<open>total_size\<close>; on not-found, no bookkeeping changes".\<close>

definition LRUStorage_do_del_value ::
  "'k LRUStorage \<Rightarrow> 'k \<Rightarrow> (cache_result \<times> 'k LRUStorage) option" where
  "LRUStorage_do_del_value s key =
     (case underlying s key of
        None \<Rightarrow> Some (CACHE_RESULT_NOT_FOUND, s)
      | Some v \<Rightarrow>
          Some (CACHE_RESULT_OK,
                (case map_of (nodes s) key of
                   None \<Rightarrow> s\<lparr>underlying := (underlying s)(key := None)\<rparr>
                 | Some sz \<Rightarrow>
                     s\<lparr>underlying := (underlying s)(key := None),
                       nodes := without_node key (nodes s),
                       item_count := item_count s - 1,
                       total_size := total_size s - sz\<rparr>)))"

text \<open>Modelled from the spec: the entry at one end of the recency list, for
  \<^verbatim>\<open>do_get_head\<close> and \<^verbatim>\<open>do_get_tail\<close>; not found when the list is empty.\<close>

definition entry_at ::
  "'k LRUStorage \<Rightarrow> ('k \<times> nat) list \<Rightarrow> cache_result \<times> ('k \<times> GWBUF) option" where
  "entry_at s ns =
     (case ns of
        [] \<Rightarrow> (CACHE_RESULT_NOT_FOUND, None)
      | (key, sz) # _ \<Rightarrow>
          (case underlying s key of
             None \<Rightarrow> (CACHE_RESULT_NOT_FOUND, None)
           | Some v \<Rightarrow> (CACHE_RESULT_OK, Some (key, v))))"

text \<open>Modelled from the spec: \<^verbatim>\<open>LRUStorage::do_get_head\<close>, "return the entry at the
  most-recently-used end without mutating order".\<close>

definition LRUStorage_do_get_head ::
  "'k LRUStorage \<Rightarrow> ((cache_result \<times> ('k \<times> GWBUF) option) \<times> 'k LRUStorage) option" where
  "LRUStorage_do_get_head s = Some (entry_at s (nodes s), s)"

text \<open>Modelled from the spec: \<^verbatim>\<open>LRUStorage::do_get_tail\<close>, the same at the
  least-recently-used end.\<close>

definition LRUStorage_do_get_tail ::
  "'k LRUStorage \<Rightarrow> ((cache_result \<times> ('k \<times> GWBUF) option) \<times> 'k LRUStorage) option" where
  "LRUStorage_do_get_tail s = Some (entry_at s (rev (nodes s)), s)"

text \<open>Modelled from the spec: \<^verbatim>\<open>LRUStorage::do_get_size\<close>, "return the running totals":
  the total size, as the \<^verbatim>\<open>uint64_t\<close> that the caller receives.\<close>

definition LRUStorage_do_get_size :: "'k LRUStorage \<Rightarrow> (cache_result \<times> 64 word option) option" where
  "LRUStorage_do_get_size s = Some (CACHE_RESULT_OK, Some (of_nat (total_size s)))"

text \<open>Modelled from the spec: \<^verbatim>\<open>LRUStorage::do_get_items\<close>, the item count.\<close>

definition LRUStorage_do_get_items :: "'k LRUStorage \<Rightarrow> (cache_result \<times> 64 word option) option" where
  "LRUStorage_do_get_items s = Some (CACHE_RESULT_OK, Some (of_nat (item_count s)))"

text \<open>Modelled from the spec: \<^verbatim>\<open>LRUStorage::do_get_info\<close>, "a diagnostic snapshot
  (limits, totals, ...) without mutating state", a mapping with the four fields that the
  spec lists.\<close>

definition LRUStorage_do_get_info ::
  "'k LRUStorage \<Rightarrow> 32 word \<Rightarrow> (cache_result \<times> (string \<times> nat) list option) option" where
  "LRUStorage_do_get_info s what =
     Some (CACHE_RESULT_OK,
           Some [(''max_item_count'', unat (max_item_count s)),
                 (''max_total_size'', unat (max_total_size s)),
                 (''item_count'', item_count s),
                 (''total_size'', total_size s)])"

text \<open>Modelled from the spec: the base class \<^verbatim>\<open>LRUStorage\<close> as \<^verbatim>\<open>LRUStorageMT\<close>
  uses it, made of the operations above.\<close>

definition LRUStorage_spec ::
  "('k LRUStorage, 'k \<rightharpoonup> GWBUF, 'k, GWBUF, (string \<times> nat) list, cache_result) LRUStorage_base" where
  "LRUStorage_spec =
     \<lparr>LRUStorage_ctor = LRUStorage_create,
      do_get_info = LRUStorage_do_get_info,
      do_get_value = LRUStorage_do_get_value,
      do_put_value = LRUStorage_do_put_value,
      do_del_value = LRUStorage_do_del_value,
      do_get_head = LRUStorage_do_get_head,
      do_get_tail = LRUStorage_do_get_tail,
      do_get_size = LRUStorage_do_get_size,
      do_get_items = LRUStorage_do_get_items\<rparr>"

text \<open>Modelled from the spec: the bookkeeping invariant of the decorator. No key has two
  nodes, and the running totals are the number of nodes and the sum of their sizes
  ("maintained incrementally").\<close>

definition LRUStorage_consistent :: "'k LRUStorage \<Rightarrow> bool" where
  "LRUStorage_consistent s \<longleftrightarrow>
     distinct (map fst (nodes s))
     \<and> item_count s = length (nodes s)
     \<and> total_size s = sum_list (map snd (nodes s))"


section \<open>Concrete instances\<close>

text \<open>A session class whose \<^verbatim>\<open>routeQuery\<close> and \<^verbatim>\<open>clientReply\<close> raise when they are
  handed a null packet, and count the packets they handle in the state otherwise.\<close>

definition example_session :: "nat FilterSessionType" where
  "example_session =
     \<lparr>fs_close = (\<lambda>this w. (Inr (), w)),
      fs_destructor = (\<lambda>this w. (Inr (), w)),
      fs_setDownstream = (\<lambda>this down w. (Inr (), w)),
      fs_setUpstream = (\<lambda>this up w. (Inr (), w)),
      fs_routeQuery = (\<lambda>this pPacket w.
         if pPacket = NULL then (Inl (std_exception ''no packet''), w) else (Inr 1, Suc w)),
      fs_clientReply = (\<lambda>this pPacket w.
         if pPacket = NULL then (Inl unknown_exception, w) else (Inr 2, Suc w)),
      fs_diagnostics = (\<lambda>this pDcb w. (Inr (), w))\<rparr>"

text \<open>A filter class whose \<^verbatim>\<open>create\<close> raises \<^verbatim>\<open>std::bad_alloc\<close> for an empty name and
  returns the filter at address 5 otherwise.\<close>

definition example_filter :: "nat FilterType" where
  "example_filter =
     \<lparr>ft_create = (\<lambda>zName pzOptions ppParams w.
         if zName = [] then (Inl bad_alloc, w) else (Inr 5, Suc w)),
      ft_newSession = (\<lambda>this pSession w. (Inr 6, Suc w)),
      ft_getCapabilities = (\<lambda>w. (Inr 0, w)),
      ft_destructor = (\<lambda>this w. (Inr (), w))\<rparr>"

text \<open>A filter class whose \<^verbatim>\<open>create\<close> reports a failure the C way: it raises nothing
  and returns a null pointer.\<close>

definition null_returning_filter :: "nat FilterType" where
  "null_returning_filter =
     \<lparr>ft_create = (\<lambda>zName pzOptions ppParams w. (Inr NULL, w)),
      ft_newSession = (\<lambda>this pSession w. (Inr NULL, w)),
      ft_getCapabilities = (\<lambda>w. (Inr 0, w)),
      ft_destructor = (\<lambda>this w. (Inr (), w))\<rparr>"

text \<open>A base class whose constructor raises \<^verbatim>\<open>std::bad_alloc\<close>; its member
  functions are those of the decorator.\<close>

definition throwing_LRUStorage ::
  "(nat LRUStorage, nat \<rightharpoonup> GWBUF, nat, GWBUF, (string \<times> nat) list, cache_result) LRUStorage_base" where
  "throwing_LRUStorage =
     LRUStorage_spec\<lparr>LRUStorage_ctor := (\<lambda>pstorage max_count max_size. Inl bad_alloc)\<rparr>"

text \<open>Two multi-threaded storages with no limit on the number of items and a limit of
  100 bytes: an empty one, and one that holds a value of 50 bytes under key 1.\<close>

definition empty_storage :: "nat LRUStorage LRUStorageMT" where
  "empty_storage =
     \<lparr>lrustorage = \<lparr>underlying = Map.empty, nodes = [], item_count = 0, total_size = 0,
                     max_item_count = 0, max_total_size = 100\<rparr>,
      lock = False\<rparr>"

definition one_entry_storage :: "nat LRUStorage LRUStorageMT" where
  "one_entry_storage =
     \<lparr>lrustorage = \<lparr>underlying = [1 \<mapsto> replicate 50 0], nodes = [(1, 50)],
                     item_count = 1, total_size = 50,
                     max_item_count = 0, max_total_size = 100\<rparr>,
      lock = False\<rparr>"


chapter \<open>Properties\<close>

text \<open>The members of the base class made of the decorator.\<close>

lemma LRUStorage_spec_simps:
  "LRUStorage_ctor LRUStorage_spec = LRUStorage_create"
  "do_put_value LRUStorage_spec = LRUStorage_do_put_value"
  "do_get_value LRUStorage_spec = LRUStorage_do_get_value"
  by (simp_all add: LRUStorage_spec_def)

section \<open>Properties of the debug flags\<close>

lemmas maxrows_defs =
  MAXROWS_DEBUG_NONE_def MAXROWS_DEBUG_MATCHING_def MAXROWS_DEBUG_NON_MATCHING_def
  MAXROWS_DEBUG_USE_def MAXROWS_DEBUG_NON_USE_def MAXROWS_DEBUG_RULES_def
  MAXROWS_DEBUG_USAGE_def MAXROWS_DEBUG_MIN_def MAXROWS_DEBUG_MAX_def

lemma fold_or_within_four_bits:
  "set fs \<subseteq> {1, 2, 4, 8} \<Longrightarrow> 0 \<le> acc \<Longrightarrow> acc < 2 ^ 4 \<Longrightarrow>
     0 \<le> fold (OR) fs (acc::int) \<and> fold (OR) fs acc < 2 ^ 4"
proof (induction fs arbitrary: acc)
  case Nil
  then show ?case by simp
next
  case (Cons f fs)
  from Cons.prems have f: "0 \<le> f" "f < 2 ^ 4" by auto
  have "0 \<le> f OR acc" using f Cons.prems by simp
  moreover have "f OR acc < 2 ^ 4" using f Cons.prems by (intro OR_upper) auto
  ultimately show ?case using Cons by simp
qed

text \<open>
  Claim C10. The four debug flags are pairwise distinct, each is a single bit (bits 0, 1,
  2 and 3), the masks \<^verbatim>\<open>MAXROWS_DEBUG_RULES\<close> and \<^verbatim>\<open>MAXROWS_DEBUG_USAGE\<close> share no bit,
  \<^verbatim>\<open>MAXROWS_DEBUG_MIN\<close> is 0, \<^verbatim>\<open>MAXROWS_DEBUG_MAX\<close> is 15, and OR-ing any selection of
  the flags gives a value between \<^verbatim>\<open>MAXROWS_DEBUG_MIN\<close> and \<^verbatim>\<open>MAXROWS_DEBUG_MAX\<close>.
\<close>

theorem maxrows_debug_flags_range:
  "distinct maxrows_debug_flags
   \<and> MAXROWS_DEBUG_MATCHING = 2 ^ 0 \<and> MAXROWS_DEBUG_NON_MATCHING = 2 ^ 1
   \<and> MAXROWS_DEBUG_USE = 2 ^ 2 \<and> MAXROWS_DEBUG_NON_USE = 2 ^ 3
   \<and> MAXROWS_DEBUG_RULES AND MAXROWS_DEBUG_USAGE = 0
   \<and> MAXROWS_DEBUG_MIN = 0 \<and> MAXROWS_DEBUG_MAX = 15
   \<and> (\<forall>fs. set fs \<subseteq> set maxrows_debug_flags \<longrightarrow>
         MAXROWS_DEBUG_MIN \<le> or_combination fs \<and> or_combination fs \<le> MAXROWS_DEBUG_MAX)"
proof -
  have flag_values: "distinct maxrows_debug_flags"
    "MAXROWS_DEBUG_MATCHING = 2 ^ 0" "MAXROWS_DEBUG_NON_MATCHING = 2 ^ 1"
    "MAXROWS_DEBUG_USE = 2 ^ 2" "MAXROWS_DEBUG_NON_USE = 2 ^ 3"
    "MAXROWS_DEBUG_RULES AND MAXROWS_DEBUG_USAGE = 0"
    "MAXROWS_DEBUG_MIN = 0" "MAXROWS_DEBUG_MAX = 15"
    by (simp_all add: maxrows_debug_flags_def maxrows_defs)
  have range: "MAXROWS_DEBUG_MIN \<le> or_combination fs \<and> or_combination fs \<le> MAXROWS_DEBUG_MAX"
    if "set fs \<subseteq> set maxrows_debug_flags" for fs
  proof -
    from that have "set fs \<subseteq> {1, 2, 4, 8}"
      by (simp add: maxrows_debug_flags_def maxrows_defs)
    then have "0 \<le> fold (OR) fs (0::int) \<and> fold (OR) fs 0 < 2 ^ 4"
      by (rule fold_or_within_four_bits) simp_all
    then show ?thesis
      using flag_values(7,8) by (simp add: or_combination_def MAXROWS_DEBUG_NONE_def)
  qed
  from flag_values range show ?thesis by blast
qed

theorem maxrows_debug_flags_range_witness:
  "or_combination [MAXROWS_DEBUG_MATCHING, MAXROWS_DEBUG_NON_USE] = 9
   \<and> MAXROWS_DEBUG_MIN \<le> or_combination [MAXROWS_DEBUG_MATCHING, MAXROWS_DEBUG_NON_USE]
   \<and> or_combination [MAXROWS_DEBUG_MATCHING, MAXROWS_DEBUG_NON_USE] \<le> MAXROWS_DEBUG_MAX"
proof -
  have sub: "set [MAXROWS_DEBUG_MATCHING, MAXROWS_DEBUG_NON_USE] \<subseteq> set maxrows_debug_flags"
    by (simp add: maxrows_debug_flags_def)
  have val: "or_combination [MAXROWS_DEBUG_MATCHING, MAXROWS_DEBUG_NON_USE] = 9"
    by (simp add: or_combination_def maxrows_defs)
  from maxrows_debug_flags_range sub val show ?thesis by blast
qed

section \<open>Properties of the handles\<close>

text \<open>
  Claim C4. For a \<^verbatim>\<open>Downstream\<close> handle whose entry point is bound to a function and
  for every packet, \<^verbatim>\<open>Downstream::routeQuery\<close> is one invocation of that function on the
  stored instance, the stored session and the packet: it returns what the function returns
  and leaves the state the function leaves. Bound to a recording function, the record
  grows by exactly one call, with these three arguments. The same holds for
  \<^verbatim>\<open>Upstream::clientReply\<close>.
\<close>

theorem handles_forward_once:
  "(d_routeQuery m = Some f \<longrightarrow>
      Downstream_routeQuery (Downstream m) pPacket w
        = Inr (f (d_instance m) (d_session m) pPacket w))
   \<and> (d_routeQuery mr = Some (recording g) \<longrightarrow>
      Downstream_routeQuery (Downstream mr) pPacket (calls, w)
        = Inr (fst (g (d_instance mr) (d_session mr) pPacket w),
               calls @ [(d_instance mr, d_session mr, pPacket)],
               snd (g (d_instance mr) (d_session mr) pPacket w)))
   \<and> (u_clientReply u = Some f \<longrightarrow>
      Upstream_clientReply (Upstream u) pPacket w
        = Inr (f (u_instance u) (u_session u) pPacket w))
   \<and> (u_clientReply ur = Some (recording g) \<longrightarrow>
      Upstream_clientReply (Upstream ur) pPacket (calls, w)
        = Inr (fst (g (u_instance ur) (u_session ur) pPacket w),
               calls @ [(u_instance ur, u_session ur, pPacket)],
               snd (g (u_instance ur) (u_session ur) pPacket w)))"
  by (simp add: Downstream_routeQuery_def Upstream_clientReply_def recording_def split: prod.splits)

theorem handles_forward_once_witness:
  "Downstream_routeQuery
     (Downstream \<lparr>d_instance = 10, d_session = 20,
                  d_routeQuery = Some (\<lambda>i s p w. (of_nat (i + s + p), Suc w))\<rparr>) 30 (0::nat)
     = Inr (60, 1)
   \<and> Downstream_routeQuery
     (Downstream \<lparr>d_instance = 10, d_session = 20,
                  d_routeQuery = Some (recording (\<lambda>i s p w. (7, Suc w)))\<rparr>) 30 ([], 0::nat)
     = Inr (7, [(10, 20, 30)], 1)
   \<and> Upstream_clientReply
     (Upstream \<lparr>u_instance = 11, u_session = 21,
                u_clientReply = Some (\<lambda>i s p w. (of_nat (i + s + p), Suc w))\<rparr>) 31 (0::nat)
     = Inr (63, 1)
   \<and> Upstream_clientReply
     (Upstream \<lparr>u_instance = 11, u_session = 21,
                u_clientReply = Some (recording (\<lambda>i s p w. (9, Suc w)))\<rparr>) 31 ([], 0::nat)
     = Inr (9, [(11, 21, 31)], 1)"
  using handles_forward_once [where
      m = "\<lparr>d_instance = 10, d_session = 20,
             d_routeQuery = Some (\<lambda>i s p w. (of_nat (i + s + p), Suc w))\<rparr>"
      and f = "\<lambda>i s p w. (of_nat (i + s + p), Suc w)" and pPacket = 30 and w = "0::nat"]
    handles_forward_once [where
      u = "\<lparr>u_instance = 11, u_session = 21,
             u_clientReply = Some (\<lambda>i s p w. (of_nat (i + s + p), Suc w))\<rparr>"
      and f = "\<lambda>i s p w. (of_nat (i + s + p), Suc w)" and pPacket = 31 and w = "0::nat"]
    handles_forward_once [where
      mr = "\<lparr>d_instance = 10, d_session = 20,
              d_routeQuery = Some (recording (\<lambda>i s p w. (7, Suc w)))\<rparr>"
      and g = "\<lambda>i s p w. (7, Suc w)" and pPacket = 30 and calls = "[]" and w = "0::nat"]
    handles_forward_once [where
      ur = "\<lparr>u_instance = 11, u_session = 21,
              u_clientReply = Some (recording (\<lambda>i s p w. (9, Suc w)))\<rparr>"
      and g = "\<lambda>i s p w. (9, Suc w)" and pPacket = 31 and calls = "[]" and w = "0::nat"]
  by simp

text \<open>
  Claim C6. A default-constructed \<^verbatim>\<open>Downstream\<close> or \<^verbatim>\<open>Upstream\<close> handle has a null
  instance, a null session and a null entry point, and invoking it is a call through a
  null function pointer. For any handle, the invocation is a call through a null function
  pointer exactly when the entry point is null: with a bound entry point it never is.
\<close>

theorem default_handles_are_null:
  "Downstream_m_data Downstream_default
      = \<lparr>d_instance = NULL, d_session = NULL, d_routeQuery = None\<rparr>
   \<and> Upstream_m_data Upstream_default
      = \<lparr>u_instance = NULL, u_session = NULL, u_clientReply = None\<rparr>
   \<and> Downstream_routeQuery Downstream_default pPacket w = Inl call_through_null_pointer
   \<and> Upstream_clientReply Upstream_default pPacket w' = Inl call_through_null_pointer
   \<and> (Downstream_routeQuery d pPacket w = Inl call_through_null_pointer
        \<longleftrightarrow> d_routeQuery (Downstream_m_data d) = None)
   \<and> (Upstream_clientReply u pPacket w' = Inl call_through_null_pointer
        \<longleftrightarrow> u_clientReply (Upstream_m_data u) = None)"
  by (auto simp: Downstream_default_def Upstream_default_def Downstream_routeQuery_def
      Upstream_clientReply_def Let_def split: option.splits)

section \<open>Properties of the template Filter\<close>

text \<open>
  Claim C5. When the session's \<^verbatim>\<open>routeQuery\<close> raises a fault, \<^verbatim>\<open>Filter::routeQuery\<close>
  returns 0 (the result type has no room for a fault: nothing propagates); when it
  returns a value, \<^verbatim>\<open>Filter::routeQuery\<close> returns that value. In both cases the state is
  the one the session's function left. The same holds for \<^verbatim>\<open>clientReply\<close>.
\<close>

theorem Filter_entry_points_swallow_faults:
  "(fst (fs_routeQuery FST pData pPacket w) = Inl e \<longrightarrow>
      Filter_routeQuery FST pInstance pData pPacket w = (0, snd (fs_routeQuery FST pData pPacket w)))
   \<and> (fst (fs_routeQuery FST pData pPacket w) = Inr rv \<longrightarrow>
      Filter_routeQuery FST pInstance pData pPacket w = (rv, snd (fs_routeQuery FST pData pPacket w)))
   \<and> (fst (fs_clientReply FST pData pPacket w) = Inl e \<longrightarrow>
      Filter_clientReply FST pInstance pData pPacket w = (0, snd (fs_clientReply FST pData pPacket w)))
   \<and> (fst (fs_clientReply FST pData pPacket w) = Inr rv \<longrightarrow>
      Filter_clientReply FST pInstance pData pPacket w = (rv, snd (fs_clientReply FST pData pPacket w)))"
  by (auto simp: Filter_routeQuery_def Filter_clientReply_def MXS_EXCEPTION_GUARD_def
      split: prod.splits sum.splits)

theorem Filter_entry_points_swallow_faults_witness:
  "Filter_routeQuery example_session 1 2 NULL 0 = (0, 0)
   \<and> Filter_routeQuery example_session 1 2 3 0 = (1, 1)
   \<and> Filter_clientReply example_session 1 2 NULL 0 = (0, 0)
   \<and> Filter_clientReply example_session 1 2 3 0 = (2, 1)"
  using Filter_entry_points_swallow_faults [where FST = example_session and pInstance = 1
      and pData = 2 and pPacket = NULL and w = 0 and e = "std_exception ''no packet''"]
    Filter_entry_points_swallow_faults [where FST = example_session and pInstance = 1
      and pData = 2 and pPacket = NULL and w = 0 and e = unknown_exception]
    Filter_entry_points_swallow_faults [where FST = example_session and pInstance = 1
      and pData = 2 and pPacket = 3 and w = 0 and rv = 1]
    Filter_entry_points_swallow_faults [where FST = example_session and pInstance = 1
      and pData = 2 and pPacket = 3 and w = 0 and rv = 2]
  by (simp add: example_session_def NULL_def)

text \<open>
  Claim C7. The table \<^verbatim>\<open>s_object\<close> has eleven entries, which are, in this order, the
  static functions \<^verbatim>\<open>createInstance\<close>, \<^verbatim>\<open>newSession\<close>, \<^verbatim>\<open>closeSession\<close>,
  \<^verbatim>\<open>freeSession\<close>, \<^verbatim>\<open>setDownstream\<close>, \<^verbatim>\<open>setUpstream\<close>, \<^verbatim>\<open>routeQuery\<close>,
  \<^verbatim>\<open>clientReply\<close>, \<^verbatim>\<open>diagnostics\<close>, \<^verbatim>\<open>getCapabilities\<close> and \<^verbatim>\<open>destroyInstance\<close>
  of the template instantiated with the concrete filter and session types.
\<close>

theorem s_object_entries:
  "length (s_object FT FST) = 11
   \<and> s_object FT FST ! 0 = createInstance_entry (Filter_createInstance FT)
   \<and> s_object FT FST ! 1 = newSession_entry (Filter_newSession FT)
   \<and> s_object FT FST ! 2 = closeSession_entry (Filter_closeSession FST)
   \<and> s_object FT FST ! 3 = freeSession_entry (Filter_freeSession FST)
   \<and> s_object FT FST ! 4 = setDownstream_entry (Filter_setDownstream FST)
   \<and> s_object FT FST ! 5 = setUpstream_entry (Filter_setUpstream FST)
   \<and> s_object FT FST ! 6 = routeQuery_entry (Filter_routeQuery FST)
   \<and> s_object FT FST ! 7 = clientReply_entry (Filter_clientReply FST)
   \<and> s_object FT FST ! 8 = diagnostics_entry (Filter_diagnostics FST)
   \<and> s_object FT FST ! 9 = getCapabilities_entry (Filter_getCapabilities FT)
   \<and> s_object FT FST ! 10 = destroyInstance_entry (Filter_destroyInstance FT)"
  by (simp add: s_object_def)

text \<open>
  Claim C9, as the code has it. When the concrete filter's \<^verbatim>\<open>create\<close> raises a fault,
  \<^verbatim>\<open>Filter::createInstance\<close> returns a null pointer; when \<^verbatim>\<open>create\<close> returns, it
  returns the very pointer that \<^verbatim>\<open>create\<close> returned, null or not. When the expression
  \<^verbatim>\<open>new LRUStorageMT(...)\<close> raises a fault (no memory, or a fault of the constructor;
  the constructor's case is stated on its own as well), \<^verbatim>\<open>LRUStorageMT::create\<close>
  returns a null pointer and the free store is unchanged; when
  it raises none, \<^verbatim>\<open>LRUStorageMT::create\<close> returns a pointer that is not null, was not in
  use before and now holds the object that the constructor built.
\<close>

theorem create_guarded:
  "(fst (ft_create FT zName pzOptions ppParams w) = Inl e \<longrightarrow>
      Filter_createInstance FT zName pzOptions ppParams w
        = (NULL, snd (ft_create FT zName pzOptions ppParams w)))
   \<and> (fst (ft_create FT zName pzOptions ppParams w) = Inr pFilter \<longrightarrow>
      Filter_createInstance FT zName pzOptions ppParams w
        = (pFilter, snd (ft_create FT zName pzOptions ppParams w)))
   \<and> (fst (new_LRUStorageMT L pstorage max_count max_size h) = Inl e \<longrightarrow>
      LRUStorageMT_create L pstorage max_count max_size h = (NULL, h))
   \<and> (LRUStorageMT_ctor L pstorage max_count max_size = Inl e \<longrightarrow>
      LRUStorageMT_create L pstorage max_count max_size h = (NULL, h))
   \<and> (fst (new_LRUStorageMT L pstorage max_count max_size h) = Inr p \<longrightarrow>
      fst (LRUStorageMT_create L pstorage max_count max_size h) = p
      \<and> p \<noteq> NULL
      \<and> heap_at h p = None
      \<and> (\<exists>obj. LRUStorageMT_ctor L pstorage max_count max_size = Inr obj
            \<and> heap_at (snd (LRUStorageMT_create L pstorage max_count max_size h)) p = Some obj))"
  by (auto simp: Filter_createInstance_def LRUStorageMT_create_def MXS_EXCEPTION_GUARD_def
      new_LRUStorageMT_def heap_at_def NULL_def nth_append
      split: prod.splits sum.splits if_splits)

theorem create_guarded_witness:
  "Filter_createInstance example_filter [] [] NULL 0 = (NULL, 0)
   \<and> Filter_createInstance example_filter ''cache'' [] NULL 0 = (5, 1)
   \<and> LRUStorageMT_create LRUStorage_spec (Map.empty :: nat \<rightharpoonup> GWBUF) 0 100
         \<lparr>objects = [], capacity = 0\<rparr>
       = (NULL, \<lparr>objects = [], capacity = 0\<rparr>)
   \<and> LRUStorageMT_create throwing_LRUStorage Map.empty 0 100 \<lparr>objects = [], capacity = 1\<rparr>
       = (NULL, \<lparr>objects = [], capacity = 1\<rparr>)
   \<and> LRUStorageMT_create LRUStorage_spec Map.empty 0 100 \<lparr>objects = [], capacity = 1\<rparr>
       = (1, \<lparr>objects = [empty_storage], capacity = 1\<rparr>)"
proof -
  let ?full = "\<lparr>objects = [], capacity = 0\<rparr> :: nat LRUStorage LRUStorageMT heap"
  let ?room = "\<lparr>objects = [], capacity = 1\<rparr> :: nat LRUStorage LRUStorageMT heap"
  have raised: "fst (ft_create example_filter [] [] NULL 0) = Inl bad_alloc"
    and made: "fst (ft_create example_filter ''cache'' [] NULL 0) = Inr 5"
    and no_memory: "fst (new_LRUStorageMT LRUStorage_spec (Map.empty :: nat \<rightharpoonup> GWBUF) 0 100 ?full)
                      = Inl bad_alloc"
    and allocated: "fst (new_LRUStorageMT LRUStorage_spec (Map.empty :: nat \<rightharpoonup> GWBUF) 0 100 ?room)
                      = Inr 1"
    by (simp_all add: example_filter_def new_LRUStorageMT_def LRUStorageMT_ctor_def
        LRUStorage_spec_simps LRUStorage_create_def)
  have built: "LRUStorageMT_ctor LRUStorage_spec Map.empty 0 100 = Inr empty_storage"
    by (simp add: LRUStorageMT_ctor_def LRUStorage_spec_simps LRUStorage_create_def
        spinlock_init_def empty_storage_def)
  have after: "snd (LRUStorageMT_create LRUStorage_spec Map.empty 0 100 ?room)
                 = \<lparr>objects = [empty_storage], capacity = 1\<rparr>"
    by (simp add: LRUStorageMT_create_def MXS_EXCEPTION_GUARD_def new_LRUStorageMT_def built)
  have worlds: "snd (ft_create example_filter [] [] NULL 0) = 0"
    "snd (ft_create example_filter ''cache'' [] NULL 0) = 1"
    by (simp_all add: example_filter_def)
  note faulty = create_guarded [where FT = example_filter and zName = "[]" and pzOptions = "[]"
        and ppParams = NULL and w = 0 and e = bad_alloc and L = LRUStorage_spec
        and pstorage = "Map.empty :: nat \<rightharpoonup> GWBUF" and max_count = 0 and max_size = 100
        and h = ?full]
  note fault_free = create_guarded [where FT = example_filter and zName = "''cache''"
        and pzOptions = "[]" and ppParams = NULL and w = 0 and pFilter = 5 and L = LRUStorage_spec
        and pstorage = "Map.empty :: nat \<rightharpoonup> GWBUF" and max_count = 0 and max_size = 100
        and h = ?room and p = 1]
  from faulty raised worlds(1)
  have c1: "Filter_createInstance example_filter [] [] NULL 0 = (NULL, 0)" by simp
  from fault_free made worlds(2)
  have c2: "Filter_createInstance example_filter ''cache'' [] NULL 0 = (5, 1)" by simp
  from faulty no_memory
  have c3: "LRUStorageMT_create LRUStorage_spec (Map.empty :: nat \<rightharpoonup> GWBUF) 0 100 ?full
              = (NULL, ?full)" by simp
  from fault_free allocated
  have "fst (LRUStorageMT_create LRUStorage_spec (Map.empty :: nat \<rightharpoonup> GWBUF) 0 100 ?room) = 1"
    by simp
  with after
  have c4: "LRUStorageMT_create LRUStorage_spec (Map.empty :: nat \<rightharpoonup> GWBUF) 0 100 ?room
              = (1, \<lparr>objects = [empty_storage], capacity = 1\<rparr>)"
    by (simp add: prod_eq_iff)
  have thrown: "LRUStorageMT_ctor throwing_LRUStorage Map.empty 0 100 = Inl bad_alloc"
    by (simp add: LRUStorageMT_ctor_def throwing_LRUStorage_def)
  from create_guarded [where FT = example_filter and zName = "[]" and pzOptions = "[]"
        and ppParams = NULL and w = 0 and e = bad_alloc and L = throwing_LRUStorage
        and pstorage = Map.empty and max_count = 0 and max_size = 100 and h = ?room] thrown
  have c5: "LRUStorageMT_create throwing_LRUStorage Map.empty 0 100 ?room = (NULL, ?room)"
    by simp
  from c1 c2 c3 c4 c5 show ?thesis by simp
qed

text \<open>
  Claim C9 says that a run without a fault returns a pointer that is not null. For
  \<^verbatim>\<open>Filter::createInstance\<close> this fails where \<^verbatim>\<open>create\<close> itself returns a null pointer
  without raising anything.
\<close>

theorem create_fault_free_may_be_null:
  "fst (ft_create null_returning_filter ''cache'' [] NULL 0) = Inr NULL
   \<and> fst (Filter_createInstance null_returning_filter ''cache'' [] NULL 0) = NULL"
  by (simp add: null_returning_filter_def Filter_createInstance_def MXS_EXCEPTION_GUARD_def)

section \<open>Properties of LRUStorageMT\<close>

text \<open>Acquiring a free lock returns at once; acquiring a held lock never returns.\<close>

lemma spinlock_acquire_free: "spinlock_acquire False = Some True"
  by (subst spinlock_acquire.simps) simp

lemma spinlock_acquire_Some: "spinlock_acquire l = Some g \<Longrightarrow> \<not> l"
proof -
  assume held: "spinlock_acquire l = Some g"
  show "\<not> l"
  proof (rule spinlock_acquire.raw_induct [where P = "\<lambda>locked guard. \<not> locked", OF _ held])
    fix acquire locked guard
    assume "\<And>locked guard. acquire locked = Some guard \<Longrightarrow> \<not> locked"
      and "(if locked then acquire locked else Some True) = Some guard"
    then show "\<not> locked" by (auto split: if_splits)
  qed
qed

lemma spinlock_acquire_held: "spinlock_acquire True = None"
  using spinlock_acquire_Some [of True] by (cases "spinlock_acquire True") auto

text \<open>Each public member function, called with the lock free.\<close>

lemma get_value_unlocked:
  "\<not> lock this \<Longrightarrow>
   LRUStorageMT_get_value L this key flags =
     map_option (\<lambda>(result, b). (result, this\<lparr>lrustorage := b\<rparr>)) (do_get_value L (lrustorage this) key flags)"
  by (auto simp: LRUStorageMT_get_value_def spinlock_acquire_free spinlock_release_def split: option.splits)

lemma put_value_unlocked:
  "\<not> lock this \<Longrightarrow>
   LRUStorageMT_put_value L this key pvalue =
     map_option (\<lambda>(result, b). (result, this\<lparr>lrustorage := b\<rparr>)) (do_put_value L (lrustorage this) key pvalue)"
  by (auto simp: LRUStorageMT_put_value_def spinlock_acquire_free spinlock_release_def split: option.splits)

lemma del_value_unlocked:
  "\<not> lock this \<Longrightarrow>
   LRUStorageMT_del_value L this key =
     map_option (\<lambda>(result, b). (result, this\<lparr>lrustorage := b\<rparr>)) (do_del_value L (lrustorage this) key)"
  by (auto simp: LRUStorageMT_del_value_def spinlock_acquire_free spinlock_release_def split: option.splits)

lemma get_head_unlocked:
  "\<not> lock this \<Longrightarrow>
   LRUStorageMT_get_head L this =
     map_option (\<lambda>(result, b). (result, this\<lparr>lrustorage := b\<rparr>)) (do_get_head L (lrustorage this))"
  by (auto simp: LRUStorageMT_get_head_def spinlock_acquire_free spinlock_release_def split: option.splits)

lemma get_tail_unlocked:
  "\<not> lock this \<Longrightarrow>
   LRUStorageMT_get_tail L this =
     map_option (\<lambda>(result, b). (result, this\<lparr>lrustorage := b\<rparr>)) (do_get_tail L (lrustorage this))"
  by (auto simp: LRUStorageMT_get_tail_def spinlock_acquire_free spinlock_release_def split: option.splits)

lemma get_size_unlocked:
  "\<not> lock this \<Longrightarrow>
   LRUStorageMT_get_size L this = map_option (\<lambda>result. (result, this)) (do_get_size L (lrustorage this))"
  by (auto simp: LRUStorageMT_get_size_def spinlock_acquire_free spinlock_release_def split: option.splits)

lemma get_items_unlocked:
  "\<not> lock this \<Longrightarrow>
   LRUStorageMT_get_items L this = map_option (\<lambda>result. (result, this)) (do_get_items L (lrustorage this))"
  by (auto simp: LRUStorageMT_get_items_def spinlock_acquire_free spinlock_release_def split: option.splits)

lemma get_info_unlocked:
  "\<not> lock this \<Longrightarrow>
   LRUStorageMT_get_info L this what = map_option (\<lambda>result. (result, this)) (do_get_info L (lrustorage this) what)"
  by (auto simp: LRUStorageMT_get_info_def spinlock_acquire_free spinlock_release_def split: option.splits)

text \<open>With the lock held, a call never returns.\<close>

lemma put_value_locked:
  "lock this \<Longrightarrow> LRUStorageMT_put_value L this key pvalue = None"
  by (simp add: LRUStorageMT_put_value_def spinlock_acquire_held)

text \<open>
  Claim C3. Called with the lock free, each public member function of \<^verbatim>\<open>LRUStorageMT\<close>
  returns exactly when the member function of the base class returns, with the same
  result and the same change of the base class state, and leaves the lock free again:
  \<^verbatim>\<open>get_value\<close> as \<^verbatim>\<open>do_get_value\<close>, \<^verbatim>\<open>put_value\<close> as \<^verbatim>\<open>do_put_value\<close>,
  \<^verbatim>\<open>del_value\<close> as \<^verbatim>\<open>do_del_value\<close>, \<^verbatim>\<open>get_head\<close> as \<^verbatim>\<open>do_get_head\<close>,
  \<^verbatim>\<open>get_tail\<close> as \<^verbatim>\<open>do_get_tail\<close>, \<^verbatim>\<open>get_size\<close> as \<^verbatim>\<open>do_get_size\<close>,
  \<^verbatim>\<open>get_items\<close> as \<^verbatim>\<open>do_get_items\<close> and \<^verbatim>\<open>get_info\<close> as \<^verbatim>\<open>do_get_info\<close>.
  (With the lock held, a call in a run of one thread spins for ever.)
\<close>

theorem LRUStorageMT_delegates:
  assumes "\<not> lock this"
  shows "LRUStorageMT_get_value L this key flags
           = map_option (\<lambda>(result, b). (result, \<lparr>lrustorage = b, lock = False\<rparr>))
               (do_get_value L (lrustorage this) key flags)
       \<and> LRUStorageMT_put_value L this key pvalue
           = map_option (\<lambda>(result, b). (result, \<lparr>lrustorage = b, lock = False\<rparr>))
               (do_put_value L (lrustorage this) key pvalue)
       \<and> LRUStorageMT_del_value L this key
           = map_option (\<lambda>(result, b). (result, \<lparr>lrustorage = b, lock = False\<rparr>))
               (do_del_value L (lrustorage this) key)
       \<and> LRUStorageMT_get_head L this
           = map_option (\<lambda>(result, b). (result, \<lparr>lrustorage = b, lock = False\<rparr>))
               (do_get_head L (lrustorage this))
       \<and> LRUStorageMT_get_tail L this
           = map_option (\<lambda>(result, b). (result, \<lparr>lrustorage = b, lock = False\<rparr>))
               (do_get_tail L (lrustorage this))
       \<and> LRUStorageMT_get_size L this
           = map_option (\<lambda>result. (result, \<lparr>lrustorage = lrustorage this, lock = False\<rparr>))
               (do_get_size L (lrustorage this))
       \<and> LRUStorageMT_get_items L this
           = map_option (\<lambda>result. (result, \<lparr>lrustorage = lrustorage this, lock = False\<rparr>))
               (do_get_items L (lrustorage this))
       \<and> LRUStorageMT_get_info L this what
           = map_option (\<lambda>result. (result, \<lparr>lrustorage = lrustorage this, lock = False\<rparr>))
               (do_get_info L (lrustorage this) what)"
proof -
  have same: "this = \<lparr>lrustorage = lrustorage this, lock = False\<rparr>"
    and changed: "this\<lparr>lrustorage := b\<rparr> = \<lparr>lrustorage = b, lock = False\<rparr>" for b
    using assms by simp_all
  show ?thesis
    unfolding get_value_unlocked [OF assms] put_value_unlocked [OF assms]
      del_value_unlocked [OF assms] get_head_unlocked [OF assms] get_tail_unlocked [OF assms]
      get_size_unlocked [OF assms] get_items_unlocked [OF assms] get_info_unlocked [OF assms]
      changed
    using same by simp
qed

theorem LRUStorageMT_delegates_witness:
  "\<not> lock one_entry_storage
   \<and> LRUStorageMT_get_value LRUStorage_spec one_entry_storage 1 0
       = Some ((CACHE_RESULT_OK, Some (replicate 50 0)), one_entry_storage)
   \<and> LRUStorageMT_put_value LRUStorage_spec one_entry_storage 1 (replicate 50 0)
       = Some (CACHE_RESULT_OK, one_entry_storage)
   \<and> LRUStorageMT_del_value LRUStorage_spec one_entry_storage 1
       = Some (CACHE_RESULT_OK, empty_storage)
   \<and> LRUStorageMT_get_head LRUStorage_spec one_entry_storage
       = Some ((CACHE_RESULT_OK, Some (1, replicate 50 0)), one_entry_storage)
   \<and> LRUStorageMT_get_tail LRUStorage_spec one_entry_storage
       = Some ((CACHE_RESULT_OK, Some (1, replicate 50 0)), one_entry_storage)
   \<and> LRUStorageMT_get_size LRUStorage_spec one_entry_storage
       = Some ((CACHE_RESULT_OK, Some 50), one_entry_storage)
   \<and> LRUStorageMT_get_items LRUStorage_spec one_entry_storage
       = Some ((CACHE_RESULT_OK, Some 1), one_entry_storage)
   \<and> LRUStorageMT_get_info LRUStorage_spec one_entry_storage 0
       = Some ((CACHE_RESULT_OK,
                Some [(''max_item_count'', 0), (''max_total_size'', 100),
                      (''item_count'', 1), (''total_size'', 50)]), one_entry_storage)"
proof -
  have free: "\<not> lock one_entry_storage"
    by (simp add: one_entry_storage_def)
  have evicted: "evict (lrustorage one_entry_storage) = Some (lrustorage one_entry_storage)"
    by (subst evict.simps) (simp add: one_entry_storage_def over_limit_def)
  from LRUStorageMT_delegates [OF free, of LRUStorage_spec 1 0 "replicate 50 0" 0] free evicted
  show ?thesis
    by (simp add: LRUStorage_spec_def LRUStorage_do_get_value_def LRUStorage_do_put_value_def
        LRUStorage_do_del_value_def LRUStorage_do_get_head_def LRUStorage_do_get_tail_def
        LRUStorage_do_get_size_def LRUStorage_do_get_items_def LRUStorage_do_get_info_def
        entry_at_def put_node_def without_node_def one_entry_storage_def empty_storage_def)
qed

section \<open>Properties of the LRU storage decorator\<close>

lemma without_node_distinct:
  "distinct (map fst ns) \<Longrightarrow> distinct (map fst (without_node key ns))"
  by (simp add: without_node_def distinct_map_filter)

lemma without_node_absent: "key \<notin> fst ` set (without_node key ns)"
  by (auto simp: without_node_def)

lemma without_node_totals:
  "distinct (map fst ns) \<Longrightarrow> map_of ns key = Some sz \<Longrightarrow>
     Suc (length (without_node key ns)) = length ns
     \<and> sum_list (map snd (without_node key ns)) + sz = sum_list (map snd ns)"
proof (induction ns)
  case Nil
  then show ?case by simp
next
  case (Cons n ns)
  show ?case
  proof (cases "fst n = key")
    case True
    with Cons.prems have "key \<notin> fst ` set ns" "snd n = sz" by auto
    then have "without_node key ns = ns"
      by (auto simp: without_node_def filter_id_conv)
    with True \<open>snd n = sz\<close> show ?thesis by (simp add: without_node_def)
  next
    case False
    with Cons show ?thesis by (auto simp: without_node_def)
  qed
qed








text \<open>Reading and deleting keep the bookkeeping consistent as well.\<close>

lemma do_get_value_consistent:
  assumes "LRUStorage_consistent s" "LRUStorage_do_get_value s key flags = Some (r, s')"
  shows "LRUStorage_consistent s'"
proof (cases "map_of (nodes s) key")
  case None
  with assms show ?thesis
    by (auto simp: LRUStorage_do_get_value_def split: option.splits)
next
  case (Some sz)
  from assms(1) have d: "distinct (map fst (nodes s))" by (simp add: LRUStorage_consistent_def)
  note t = without_node_totals [OF d Some]
  from assms Some t without_node_distinct [OF d, of key] without_node_absent [of key "nodes s"]
  show ?thesis
    by (auto simp: LRUStorage_do_get_value_def LRUStorage_consistent_def split: option.splits)
qed

lemma do_del_value_consistent:
  assumes "LRUStorage_consistent s" "LRUStorage_do_del_value s key = Some (r, s')"
  shows "LRUStorage_consistent s'"
proof (cases "map_of (nodes s) key")
  case None
  with assms show ?thesis
    by (auto simp: LRUStorage_do_del_value_def LRUStorage_consistent_def split: option.splits)
next
  case (Some sz)
  from assms(1) have d: "distinct (map fst (nodes s))" by (simp add: LRUStorage_consistent_def)
  note t = without_node_totals [OF d Some]
  from assms Some t without_node_distinct [OF d, of key]
  show ?thesis
    by (auto simp: LRUStorage_do_del_value_def LRUStorage_consistent_def split: option.splits)
qed













end
